theory Spec2Isabelle
  imports Complex_Main
begin

section \<open>JavaScript numbers\<close>

text \<open>
  Every numeric field of the engine is a JavaScript \<open>number\<close>. The model keeps the
  special values that decide the branches of the code (\<open>Infinity\<close>, \<open>-Infinity\<close>,
  \<open>NaN\<close>) and takes the finite values as exact reals: rounding and the sign of zero
  are not represented. Division by zero, the remainder operator \<open>%\<close>, the comparisons
  and truthiness follow ECMAScript on these values. The remainder and the comparisons
  are exact in doubles as well; sums, products and quotients are rounded there, and
  the theorems below say which of them the code computes from which values, without
  bounding their results.
\<close>

datatype number = Num real | PosInf | NegInf | NaN

fun js_neg :: "number \<Rightarrow> number" where
  "js_neg (Num a) = Num (- a)"
| "js_neg PosInf = NegInf"
| "js_neg NegInf = PosInf"
| "js_neg NaN = NaN"

fun js_add :: "number \<Rightarrow> number \<Rightarrow> number" where
  "js_add (Num a) (Num b) = Num (a + b)"
| "js_add NaN _ = NaN"
| "js_add _ NaN = NaN"
| "js_add PosInf NegInf = NaN"
| "js_add NegInf PosInf = NaN"
| "js_add PosInf _ = PosInf"
| "js_add _ PosInf = PosInf"
| "js_add NegInf _ = NegInf"
| "js_add _ NegInf = NegInf"

definition js_sub :: "number \<Rightarrow> number \<Rightarrow> number" where
  "js_sub a b = js_add a (js_neg b)"

text \<open>The sign of an infinite product or quotient, by the sign of the finite operand.\<close>

definition signed_inf :: "bool \<Rightarrow> number" where
  "signed_inf positive = (if positive then PosInf else NegInf)"

fun js_mul :: "number \<Rightarrow> number \<Rightarrow> number" where
  "js_mul (Num a) (Num b) = Num (a * b)"
| "js_mul NaN _ = NaN"
| "js_mul _ NaN = NaN"
| "js_mul PosInf (Num b) = (if b = 0 then NaN else signed_inf (0 < b))"
| "js_mul NegInf (Num b) = (if b = 0 then NaN else signed_inf (b < 0))"
| "js_mul (Num a) PosInf = (if a = 0 then NaN else signed_inf (0 < a))"
| "js_mul (Num a) NegInf = (if a = 0 then NaN else signed_inf (a < 0))"
| "js_mul PosInf PosInf = PosInf"
| "js_mul NegInf NegInf = PosInf"
| "js_mul PosInf NegInf = NegInf"
| "js_mul NegInf PosInf = NegInf"

fun js_div :: "number \<Rightarrow> number \<Rightarrow> number" where
  "js_div (Num a) (Num b) =
     (if b = 0 then (if a = 0 then NaN else signed_inf (0 < a)) else Num (a / b))"
| "js_div NaN _ = NaN"
| "js_div _ NaN = NaN"
| "js_div (Num a) PosInf = Num 0"
| "js_div (Num a) NegInf = Num 0"
| "js_div PosInf (Num b) = signed_inf (0 \<le> b)"
| "js_div NegInf (Num b) = signed_inf (b < 0)"
| "js_div PosInf PosInf = NaN"
| "js_div PosInf NegInf = NaN"
| "js_div NegInf PosInf = NaN"
| "js_div NegInf NegInf = NaN"

text \<open>\<open>a % b\<close>: the remainder of the division truncated towards zero.\<close>

definition js_trunc :: "real \<Rightarrow> int" where
  "js_trunc q = (if 0 \<le> q then \<lfloor>q\<rfloor> else \<lceil>q\<rceil>)"

fun js_mod :: "number \<Rightarrow> number \<Rightarrow> number" where
  "js_mod (Num a) (Num b) =
     (if b = 0 then NaN else Num (a - b * of_int (js_trunc (a / b))))"
| "js_mod NaN _ = NaN"
| "js_mod _ NaN = NaN"
| "js_mod PosInf _ = NaN"
| "js_mod NegInf _ = NaN"
| "js_mod (Num a) PosInf = Num a"
| "js_mod (Num a) NegInf = Num a"

text \<open>\<open>a < b\<close> and \<open>a >= b\<close>: every comparison with \<open>NaN\<close> is false.\<close>

fun js_lt :: "number \<Rightarrow> number \<Rightarrow> bool" where
  "js_lt (Num a) (Num b) = (a < b)"
| "js_lt NaN _ = False"
| "js_lt _ NaN = False"
| "js_lt PosInf _ = False"
| "js_lt _ NegInf = False"
| "js_lt _ PosInf = True"
| "js_lt NegInf _ = True"

fun js_ge :: "number \<Rightarrow> number \<Rightarrow> bool" where
  "js_ge (Num a) (Num b) = (b \<le> a)"
| "js_ge NaN _ = False"
| "js_ge _ NaN = False"
| "js_ge PosInf _ = True"
| "js_ge _ NegInf = True"
| "js_ge _ PosInf = False"
| "js_ge NegInf _ = False"

text \<open>\<open>a === b\<close> on numbers: \<open>NaN\<close> equals nothing, itself included.\<close>

definition js_seq :: "number \<Rightarrow> number \<Rightarrow> bool" where
  "js_seq a b = (a \<noteq> NaN \<and> a = b)"

text \<open>Truthiness of a number: \<open>0\<close> and \<open>NaN\<close> are falsy.\<close>

definition truthy :: "number \<Rightarrow> bool" where
  "truthy a = (a \<noteq> Num 0 \<and> a \<noteq> NaN)"

text \<open>
  \<open>v || d\<close> for a property \<open>v\<close> of a configuration object that may be absent
  (\<open>undefined\<close>, here \<open>None\<close>): the default \<open>d\<close> is taken when \<open>v\<close> is falsy.
\<close>

definition num_or :: "number option \<Rightarrow> number \<Rightarrow> number" where
  "num_or v d = (case v of None \<Rightarrow> d | Some a \<Rightarrow> if truthy a then a else d)"


section \<open>Vectors\<close>

type_synonym vector = "number \<times> number"

text \<open>
  Modelled from the spec: the class \<open>Vector\<close> of \<open>math/vector\<close> is not among the
  sources. A \<open>Vector2\<close> is a pair \<open>(x, y)\<close> of numbers and a pure value; \<open>Vector.add\<close>
  and \<open>Vector.sub\<close> are the componentwise sum and difference.
\<close>

definition Vector_add :: "vector \<Rightarrow> vector \<Rightarrow> vector" where
  "Vector_add u v = (js_add (fst u) (fst v), js_add (snd u) (snd v))"

definition Vector_sub :: "vector \<Rightarrow> vector \<Rightarrow> vector" where
  "Vector_sub u v = (js_sub (fst u) (fst v), js_sub (snd u) (snd v))"


section \<open>The visual proxy of a body\<close>

text \<open>
  Modelled from the spec: the class \<open>Shape\<close> of \<open>shape/BaseShape\<close> with its accessor
  \<open>attr\<close> is not among the sources. The core holds one visual proxy per body and
  pushes \<open>x\<close>, \<open>y\<close> and \<open>rotate\<close> into it; \<open>attr(name)\<close> reads the attribute and
  \<open>attr(name, v)\<close> stores \<open>v\<close> and returns the shape, as the accessors \<open>x()\<close>, \<open>y()\<close>
  and \<open>rotate()\<close> of the base shape class do for a number. The attributes are the
  fields of the record; reading is field selection and storing is field update.
\<close>

record Shape =
  shape_id :: nat
  shape_x :: number
  shape_y :: number
  shape_rotate :: number
  shape_center :: vector


section \<open>Bodies\<close>

datatype staticType = none | position | total

datatype state = init | simulate | sleep

text \<open>
  The class \<open>Body\<close>. The bounding box has the type \<open>'br\<close> of whatever the subclass
  keeps for it. The two callbacks \<open>collidedFn\<close> and \<open>separatedFn\<close> take no part in
  the operations below and are left out.
\<close>

record 'br Body =
  body_id :: nat
  shape :: Shape
  boundRect :: 'br
  state :: state
  isCollide :: bool
  linearVel :: vector
  angularVel :: number
  linearAcc :: vector
  angularAcc :: number
  pos :: vector
  rot :: number
  mass :: number
  inverseMass :: number
  friction :: number
  restitution :: number
  area :: number
  density :: number
  centroid :: vector
  rotationInertia :: number
  torque :: number
  static :: staticType
  curMotion :: number
  frameMotionListIn10 :: "number list"

text \<open>The argument of \<open>updateBoundRect\<close>: \<open>{type: 'pos', val}\<close> or \<open>{type: 'rot', val}\<close>.\<close>

datatype updateInfo = UpdatePos vector | UpdateRot number

text \<open>
  The methods that \<open>Body\<close> declares and only throws from
  (\<open>calcArea\<close>, \<open>calcDensity\<close>, \<open>calcCentroid\<close>, \<open>calcRotationInertia\<close>,
  \<open>updateBoundRect\<close>) are overridden by the subclasses \<open>CirBody\<close>, \<open>PolygonBody\<close>,
  \<open>RectBody\<close> and \<open>TriBody\<close>, which are not among the sources. An operation of
  \<open>Body\<close> that calls them takes the overrides of its subclass as a parameter: each
  reads the body; \<open>updateBoundRect\<close> yields the new bounding box.
\<close>

record 'br overrides =
  calcArea :: "'br Body \<Rightarrow> number"
  calcDensity :: "'br Body \<Rightarrow> number"
  calcCentroid :: "'br Body \<Rightarrow> vector"
  calcRotationInertia :: "'br Body \<Rightarrow> number"
  updateBoundRect :: "updateInfo \<Rightarrow> 'br Body \<Rightarrow> 'br"

subsection \<open>Updating the shape\<close>

definition setPos :: "'br overrides \<Rightarrow> vector \<Rightarrow> 'br Body \<Rightarrow> 'br Body" where
  "setPos sub p b =
     (let shapeX = shape_x (shape b);
          shapeY = shape_y (shape b);
          dPos = Vector_sub p (pos b);
          b1 = b\<lparr>pos := p\<rparr>;
          b2 = b1\<lparr>boundRect := updateBoundRect sub (UpdatePos dPos) b1\<rparr>
      in b2\<lparr>shape := (shape b2)\<lparr>shape_x := js_add shapeX (fst dPos),
                                 shape_y := js_add shapeY (snd dPos)\<rparr>\<rparr>)"

definition setRotation :: "'br overrides \<Rightarrow> number \<Rightarrow> 'br Body \<Rightarrow> 'br Body" where
  "setRotation sub deg b =
     (let dDeg = js_sub deg (rot b);
          b1 = b\<lparr>rot := deg\<rparr>;
          b2 = b1\<lparr>boundRect := updateBoundRect sub (UpdateRot dDeg) b1\<rparr>
      in b2\<lparr>shape := (shape b2)\<lparr>shape_rotate := deg\<rparr>\<rparr>)"

subsection \<open>Integration\<close>

definition integratePosition :: "'br overrides \<Rightarrow> 'br Body \<Rightarrow> 'br Body" where
  "integratePosition sub b =
     (let b1 = b\<lparr>linearVel := Vector_add (linearVel b) (linearAcc b)\<rparr>
      in setPos sub (Vector_add (linearVel b1) (pos b1)) b1)"

definition integrateRotation :: "'br overrides \<Rightarrow> 'br Body \<Rightarrow> 'br Body" where
  "integrateRotation sub b =
     (let b1 = b\<lparr>angularVel := js_add (angularVel b) (angularAcc b)\<rparr>;
          b2 = (if js_ge (rot b1) (Num 360) then b1\<lparr>rot := js_mod (rot b1) (Num 360)\<rparr> else b1)
      in setRotation sub (js_add (rot b2) (angularVel b2)) b2)"

subsection \<open>Mass data\<close>

definition setMassData :: "'br overrides \<Rightarrow> 'br Body \<Rightarrow> 'br Body" where
  "setMassData sub b =
     (let b1 = b\<lparr>area := calcArea sub b\<rparr>;
          b2 = (if \<not> js_seq (mass b1) (Num 0)
                then b1\<lparr>density := calcDensity sub b1\<rparr>
                else b1\<lparr>mass := js_mul (area b1) (density b1)\<rparr>);
          b3 = b2\<lparr>centroid := calcCentroid sub b2\<rparr>;
          b4 = b3\<lparr>rotationInertia := calcRotationInertia sub b3\<rparr>
      in if static b4 = position \<or> static b4 = total
         then b4\<lparr>inverseMass := Num 0\<rparr>
         else b4\<lparr>inverseMass := js_div (Num 1) (mass b4)\<rparr>)"

subsection \<open>The sleep heuristic\<close>

text \<open>
  \<open>Vector.len\<close> (of \<open>math/vector\<close>) and \<open>calcStandardDeviation\<close> (of \<open>util/util\<close>) are
  not among the sources; \<open>isTimeToSleep\<close> takes both as parameters. \<open>shift()\<close> drops
  the first element of the array and \<open>push\<close> appends at its end.
\<close>

definition isTimeToSleep ::
  "(vector \<Rightarrow> number) \<Rightarrow> (number list \<Rightarrow> number) \<Rightarrow> vector \<Rightarrow> number \<Rightarrow> 'br Body \<Rightarrow> 'br Body"
where
  "isTimeToSleep Vector_len calcStandardDeviation lv av b =
     (let motion = js_add (js_mul (Vector_len lv) (Vector_len lv)) (js_mul av av);
          l1 = (if 20 \<le> length (frameMotionListIn10 b)
                then tl (frameMotionListIn10 b) else frameMotionListIn10 b);
          l2 = l1 @ [motion];
          b1 = b\<lparr>frameMotionListIn10 := l2\<rparr>
      in if length l2 = 20
         then (let s = calcStandardDeviation l2
               in if js_lt s (Num 500) then b1\<lparr>state := sleep\<rparr> else b1\<lparr>state := simulate\<rparr>)
         else b1)"

subsection \<open>Construction\<close>

text \<open>
  The class \<open>Nature\<close>; a property the configuration leaves out is \<open>None\<close>. Of a
  \<open>BodyConfig\<close>, \<open>shape\<close> is consumed by the constructor of the visual proxy before
  \<open>initPhysicalData\<close> runs and the two callbacks are left out, as in \<open>Body\<close>.
\<close>

record Nature =
  nature_mass :: "number option"
  nature_static :: "string option"
  nature_linearVelocity :: "vector option"
  nature_angularVelocity :: "number option"
  nature_friction :: "number option"
  nature_restitution :: "number option"

record BodyConfig =
  nature :: "Nature option"

text \<open>The \<open>switch\<close> over \<open>opt.nature.static\<close>; the empty string is falsy.\<close>

definition static_of :: "string option \<Rightarrow> staticType" where
  "static_of s =
     (case s of
        None \<Rightarrow> none
      | Some str \<Rightarrow>
          if str = [] then none
          else if str = ''none'' then none
          else if str = ''position'' then position
          else if str = ''total'' then total
          else none)"

text \<open>
  \<open>initPhysicalData\<close> runs on the object under construction, whose \<open>shape\<close> and \<open>id\<close>
  the constructor has set: it assigns every other field but \<open>boundRect\<close>.
\<close>

definition initPhysicalData :: "BodyConfig \<Rightarrow> 'br Body \<Rightarrow> 'br Body" where
  "initPhysicalData opt this =
     (let b = this\<lparr>
            pos := shape_center (shape this),
            rot := shape_rotate (shape this),
            linearAcc := (Num 0, Num 0),
            linearVel := (Num 0, Num 0),
            angularVel := Num 0,
            angularAcc := Num 0,
            mass := Num 0,
            inverseMass := Num (- 1),
            friction := Num 0,
            restitution := Num (9 / 10),
            area := Num 0,
            density := Num (1 / 100),
            centroid := (Num 0, Num 0),
            rotationInertia := Num 0,
            torque := Num 0,
            static := none,
            state := init,
            isCollide := False,
            curMotion := Num 0,
            frameMotionListIn10 := []\<rparr>
      in case nature opt of
           None \<Rightarrow> b
         | Some n \<Rightarrow>
             b\<lparr>linearVel := (case nature_linearVelocity n of None \<Rightarrow> linearVel b | Some v \<Rightarrow> v),
               angularVel := num_or (nature_angularVelocity n) (angularVel b),
               friction := num_or (nature_friction n) (friction b),
               restitution := num_or (nature_restitution n) (restitution b),
               mass := num_or (nature_mass n) (mass b),
               static := static_of (nature_static n)\<rparr>)"


section \<open>The layer manager\<close>

text \<open>
  Of the container element the manager reads \<open>offsetWidth\<close> and \<open>offsetHeight\<close>.
  \<open>containerSize\<close> is the two-element array \<open>[offsetWidth, offsetHeight]\<close> that the
  constructor builds and nothing writes afterwards, here a pair:
  \<open>containerSize[0]\<close> is \<open>fst\<close> and \<open>containerSize[1]\<close> is \<open>snd\<close>.
  \<open>layerMap\<close> is an object keyed by z-index: its keys are property keys, that is
  strings, and it is here the list of its entries in the order in which \<open>for ... in\<close>
  visits them. The class \<open>Layer\<close> is not among the sources: the layers have the type
  \<open>'l\<close>, and an operation that calls \<open>getCount\<close> or \<open>clear\<close> of a layer takes that
  method as a parameter. The registration of the broadcast listeners and the canvas
  elements of the page are not represented.
\<close>

record HTMLElement =
  offsetWidth :: int
  offsetHeight :: int

record 'l LayerManager =
  container :: HTMLElement
  containerSize :: "int \<times> int"
  defaultZIndex :: int
  layerMap :: "(string \<times> 'l) list"
  totalShapeCount :: int

definition LayerManager_new :: "HTMLElement \<Rightarrow> 'l LayerManager" where
  "LayerManager_new containerEle =
     \<lparr>container = containerEle,
      containerSize = (offsetWidth containerEle, offsetHeight containerEle),
      defaultZIndex = 100,
      layerMap = [],
      totalShapeCount = 0\<rparr>"

definition LayerManager_getHeight :: "'l LayerManager \<Rightarrow> int" where
  "LayerManager_getHeight lm = fst (containerSize lm)"

definition LayerManager_getWidth :: "'l LayerManager \<Rightarrow> int" where
  "LayerManager_getWidth lm = snd (containerSize lm)"

fun getTotalCount_loop :: "('l \<Rightarrow> int) \<Rightarrow> (string \<times> 'l) list \<Rightarrow> int \<Rightarrow> int" where
  "getTotalCount_loop getCount [] t = t"
| "getTotalCount_loop getCount (e # es) t = getTotalCount_loop getCount es (t + getCount (snd e))"

text \<open>\<open>getTotalCount\<close> returns the new state of the manager and the number it returns.\<close>

definition getTotalCount :: "('l \<Rightarrow> int) \<Rightarrow> 'l LayerManager \<Rightarrow> 'l LayerManager \<times> int" where
  "getTotalCount getCount lm =
     (let t = getTotalCount_loop getCount (layerMap lm) (totalShapeCount lm)
      in (lm\<lparr>totalShapeCount := t\<rparr>, t))"

text \<open>The result of the \<open>n\<close>-th of \<open>n\<close> successive calls of \<open>getTotalCount\<close>, for \<open>n \<ge> 1\<close>.\<close>

fun getTotalCount_nth :: "('l \<Rightarrow> int) \<Rightarrow> nat \<Rightarrow> 'l LayerManager \<Rightarrow> int" where
  "getTotalCount_nth getCount 0 lm = totalShapeCount lm"
| "getTotalCount_nth getCount (Suc 0) lm = snd (getTotalCount getCount lm)"
| "getTotalCount_nth getCount (Suc n) lm =
     getTotalCount_nth getCount n (fst (getTotalCount getCount lm))"

subsection \<open>Property keys and \<open>parseInt\<close>\<close>










subsection \<open>\<open>clear\<close>\<close>








section \<open>The world\<close>

text \<open>
  Modelled from the spec: the class \<open>RendererCreator\<close> of \<open>render/core\<close> is not among
  the sources. The renderer is the layered canvas renderer over the container element
  whose size is the viewport of the world: it holds the \<open>LayerManager\<close> over that
  element, and its \<open>getWidth\<close> and \<open>getHeight\<close> are those of the layer manager.
\<close>

record 'l RendererCreator =
  layerManager :: "'l LayerManager"

definition RendererCreator_new :: "HTMLElement \<Rightarrow> 'l RendererCreator" where
  "RendererCreator_new containerEle = \<lparr>layerManager = LayerManager_new containerEle\<rparr>"

definition RendererCreator_getWidth :: "'l RendererCreator \<Rightarrow> int" where
  "RendererCreator_getWidth r = LayerManager_getWidth (layerManager r)"

definition RendererCreator_getHeight :: "'l RendererCreator \<Rightarrow> int" where
  "RendererCreator_getHeight r = LayerManager_getHeight (layerManager r)"


text \<open>
  Modelled from the spec: the class \<open>BodyHeap\<close> of \<open>dynamic/bodyHeap\<close> is not among the
  sources. It stores the live dynamic bodies as a sequence; a new heap is empty and
  \<open>clear()\<close> removes all.
\<close>

record 'br BodyHeap =
  heap :: "'br Body list"

definition BodyHeap_new :: "'br BodyHeap" where
  "BodyHeap_new = \<lparr>heap = []\<rparr>"


text \<open>
  The class \<open>WorldCreator\<close> with its renderer, its body heap and its boundary manager.
  The class \<open>BoundariesManager\<close> is not among the sources: the manager has the type
  \<open>'bm\<close> and the constructor of the world takes the manager's constructor as a
  parameter. The collision manager, the force manager and the motion driver take no
  part in the operations below and are left out.
\<close>

record ('l, 'br, 'bm) WorldCreator =
  Renderer :: "'l RendererCreator"
  bodyHeap :: "'br BodyHeap"
  boundariesManager :: 'bm

definition WorldCreator_getWidth :: "('l, 'br, 'bm) WorldCreator \<Rightarrow> int" where
  "WorldCreator_getWidth w = RendererCreator_getWidth (Renderer w)"

definition WorldCreator_getHeight :: "('l, 'br, 'bm) WorldCreator \<Rightarrow> int" where
  "WorldCreator_getHeight w = RendererCreator_getHeight (Renderer w)"

definition WorldCreator_new ::
  "(int \<times> int \<Rightarrow> 'bm) \<Rightarrow> HTMLElement \<Rightarrow> ('l, 'br, 'bm) WorldCreator"
where
  "WorldCreator_new BoundariesManager_new containerEle =
     (let r = RendererCreator_new containerEle
      in \<lparr>Renderer = r,
          bodyHeap = BodyHeap_new,
          boundariesManager =
            BoundariesManager_new (RendererCreator_getWidth r, RendererCreator_getHeight r)\<rparr>)"



section \<open>Sample inputs\<close>

text \<open>
  A rectangle of 50 by 20 at \<open>(400, 580)\<close>, the inputs of the evaluated examples below:
  its visual proxy, overrides in the manner of a rectangle body (the bounding box is
  the pair of its corners), the object as the constructor hands it to
  \<open>initPhysicalData\<close>, and a body built from a configuration of mass 1.
\<close>

type_synonym box = "vector \<times> vector"

definition sample_shape :: Shape where
  "sample_shape =
     \<lparr>shape_id = 1, shape_x = Num 375, shape_y = Num 570, shape_rotate = Num 0,
      shape_center = (Num 400, Num 580)\<rparr>"

definition sample_overrides :: "box overrides" where
  "sample_overrides =
     \<lparr>calcArea = (\<lambda>b. Num 1000),
      calcDensity = (\<lambda>b. js_div (mass b) (area b)),
      calcCentroid = (\<lambda>b. pos b),
      calcRotationInertia = (\<lambda>b. js_div (js_mul (mass b) (Num 2900)) (Num 12)),
      updateBoundRect = (\<lambda>u b. case u of
          UpdatePos d \<Rightarrow> (Vector_add (fst (boundRect b)) d, Vector_add (snd (boundRect b)) d)
        | UpdateRot d \<Rightarrow> boundRect b)\<rparr>"

definition sample_object :: "box Body" where
  "sample_object =
     \<lparr>body_id = 1, shape = sample_shape,
      boundRect = ((Num 375, Num 570), (Num 425, Num 590)),
      state = init, isCollide = False,
      linearVel = (NaN, NaN), angularVel = NaN, linearAcc = (NaN, NaN), angularAcc = NaN,
      pos = (NaN, NaN), rot = NaN, mass = NaN, inverseMass = NaN, friction = NaN,
      restitution = NaN, area = NaN, density = NaN, centroid = (NaN, NaN),
      rotationInertia = NaN, torque = NaN, static = none, curMotion = NaN,
      frameMotionListIn10 = []\<rparr>"

definition sample_nature :: Nature where
  "sample_nature =
     \<lparr>nature_mass = Some (Num 1), nature_static = None, nature_linearVelocity = None,
      nature_angularVelocity = None, nature_friction = None, nature_restitution = None\<rparr>"

definition sample_body :: "box Body" where
  "sample_body = initPhysicalData \<lparr>nature = Some sample_nature\<rparr> sample_object"

text \<open>The same configuration with \<open>mass: Infinity\<close>.\<close>

definition infinite_mass_body :: "box Body" where
  "infinite_mass_body =
     initPhysicalData \<lparr>nature = Some (sample_nature\<lparr>nature_mass := Some PosInf\<rparr>)\<rparr> sample_object"

text \<open>
  A length and a standard deviation for the sleep heuristic: the Euclidean length and
  the population standard deviation, with \<open>Math.sqrt\<close> on the model's numbers; and
  the 19 motion samples of a body that has been at rest.
\<close>

fun js_sqrt :: "number \<Rightarrow> number" where
  "js_sqrt (Num a) = (if a < 0 then NaN else Num (sqrt a))"
| "js_sqrt PosInf = PosInf"
| "js_sqrt NegInf = NaN"
| "js_sqrt NaN = NaN"

definition sample_len :: "vector \<Rightarrow> number" where
  "sample_len v = js_sqrt (js_add (js_mul (fst v) (fst v)) (js_mul (snd v) (snd v)))"

definition js_sum :: "number list \<Rightarrow> number" where
  "js_sum l = foldl js_add (Num 0) l"

definition sample_deviation :: "number list \<Rightarrow> number" where
  "sample_deviation l =
     (let n = Num (real (length l));
          mean = js_div (js_sum l) n
      in js_sqrt (js_div (js_sum (map (\<lambda>a. js_mul (js_sub a mean) (js_sub a mean)) l)) n))"

definition resting_samples :: "number list" where
  "resting_samples =
     [Num 0, Num 0, Num 0, Num 0, Num 0, Num 0, Num 0, Num 0, Num 0, Num 0,
      Num 0, Num 0, Num 0, Num 0, Num 0, Num 0, Num 0, Num 0, Num 0]"

text \<open>
  A layer manager over a container of 800 by 600 with layers at the z-indices 0 and
  3, a layer being the list of the identifiers of its shapes, and a world over it
  with the sample body on its heap and two boundaries; and the same with the second
  layer at the z-index \<open>1e21\<close>, whose property key is \<open>1e+21\<close>.
\<close>

definition sample_layers :: "nat list LayerManager" where
  "sample_layers =
     (LayerManager_new \<lparr>offsetWidth = 800, offsetHeight = 600\<rparr>)
       \<lparr>layerMap := [(''0'', [1, 2]), (''3'', [4])]\<rparr>"

definition sample_getCount :: "nat list \<Rightarrow> int" where
  "sample_getCount l = int (length l)"





section \<open>Facts about the sample inputs and the numbers\<close>

lemma js_add_commute: "js_add a b = js_add b a"
  by (cases a; cases b) simp_all

lemma Vector_add_commute: "Vector_add u v = Vector_add v u"
  by (simp add: Vector_add_def js_add_commute)

lemma num_or_zero: "num_or (Some (Num 0)) d = d"
  by (simp add: num_or_def truthy_def)

lemma js_div_one_zero_iff:
  "js_seq (js_div (Num 1) m) (Num 0) \<longleftrightarrow> m = PosInf \<or> m = NegInf"
  by (cases m) (simp_all add: js_seq_def signed_inf_def)

lemma sample_body_eval:
  "sample_body = sample_object\<lparr>
            pos := (Num 400, Num 580),
            rot := Num 0,
            linearAcc := (Num 0, Num 0),
            linearVel := (Num 0, Num 0),
            angularVel := Num 0,
            angularAcc := Num 0,
            mass := Num 1,
            inverseMass := Num (- 1),
            friction := Num 0,
            restitution := Num (9 / 10),
            area := Num 0,
            density := Num (1 / 100),
            centroid := (Num 0, Num 0),
            rotationInertia := Num 0,
            torque := Num 0,
            static := none,
            state := init,
            isCollide := False,
            curMotion := Num 0,
            frameMotionListIn10 := []\<rparr>"
  by (simp add: sample_body_def initPhysicalData_def Let_def sample_nature_def sample_object_def
      sample_shape_def num_or_def truthy_def static_of_def)

lemma sample_body_fields:
  "shape sample_body = sample_shape"
  "boundRect sample_body = ((Num 375, Num 570), (Num 425, Num 590))"
  "pos sample_body = (Num 400, Num 580)"
  "rot sample_body = Num 0"
  "linearVel sample_body = (Num 0, Num 0)"
  "linearAcc sample_body = (Num 0, Num 0)"
  "angularVel sample_body = Num 0"
  "angularAcc sample_body = Num 0"
  "mass sample_body = Num 1"
  "density sample_body = Num (1 / 100)"
  "restitution sample_body = Num (9 / 10)"
  "static sample_body = none"
  "state sample_body = init"
  "frameMotionListIn10 sample_body = []"
  by (simp_all add: sample_body_eval sample_object_def)

lemma infinite_mass_body_fields:
  "mass infinite_mass_body = PosInf" "static infinite_mass_body = none"
  by (simp_all add: infinite_mass_body_def initPhysicalData_def Let_def sample_nature_def
      num_or_def truthy_def static_of_def)


section \<open>Mass data\<close>

lemma setMassData_static: "static (setMassData sub b) = static b"
  by (simp add: setMassData_def Let_def)

lemma setMassData_inverseMass:
  "inverseMass (setMassData sub b) =
     (if static b = position \<or> static b = total then Num 0
      else js_div (Num 1) (mass (setMassData sub b)))"
  by (simp add: setMassData_def Let_def)

lemma setMassData_mass:
  "mass (setMassData sub b) =
     (if js_seq (mass b) (Num 0) then js_mul (calcArea sub b) (density b) else mass b)"
  by (simp add: setMassData_def Let_def)

lemma setMassData_density:
  "density (setMassData sub b) =
     (if js_seq (mass b) (Num 0) then density b
      else calcDensity sub (b\<lparr>area := calcArea sub b\<rparr>))"
  by (simp add: setMassData_def Let_def)

lemma setMassData_area: "area (setMassData sub b) = calcArea sub b"
  by (simp add: setMassData_def Let_def)

lemma initPhysicalData_density: "density (initPhysicalData opt this) = Num (1 / 100)"
  by (simp add: initPhysicalData_def Let_def split: option.splits)

text \<open>
  C1, as the code has it. \<open>setMassData\<close> stores the area of the subclass. When the mass is
  not \<open>0\<close> it keeps the mass and recomputes the density by \<open>calcDensity\<close>; otherwise it
  keeps the density and sets the mass to area times density, the density of a body
  fresh from \<open>initPhysicalData\<close> being 0.01. \<open>inverseMass\<close> is \<open>0\<close> when \<open>static\<close> is
  \<open>position\<close> or \<open>total\<close> and \<open>1 / mass\<close> otherwise. Hence \<open>inverseMass == 0\<close> holds exactly
  when \<open>static\<close> is not \<open>none\<close>, for every body whose mass after \<open>setMassData\<close> is neither
  \<open>Infinity\<close> nor \<open>-Infinity\<close>; a mass of \<open>0\<close> gives the inverse \<open>Infinity\<close>, which is not
  \<open>0\<close>.
\<close>

theorem setMassData_mass_data:
  "area (setMassData sub b) = calcArea sub b \<and>
   (if js_seq (mass b) (Num 0)
    then mass (setMassData sub b) = js_mul (calcArea sub b) (density b) \<and>
         density (setMassData sub b) = density b
    else density (setMassData sub b) = calcDensity sub (b\<lparr>area := calcArea sub b\<rparr>) \<and>
         mass (setMassData sub b) = mass b) \<and>
   density (initPhysicalData opt this) = Num (1 / 100) \<and>
   inverseMass (setMassData sub b) =
     (if static b = position \<or> static b = total then Num 0
      else js_div (Num 1) (mass (setMassData sub b))) \<and>
   static (setMassData sub b) = static b \<and>
   (mass (setMassData sub b) \<noteq> PosInf \<and> mass (setMassData sub b) \<noteq> NegInf \<longrightarrow>
      (js_seq (inverseMass (setMassData sub b)) (Num 0) \<longleftrightarrow>
       static (setMassData sub b) \<noteq> none))"
proof -
  have iff: "js_seq (inverseMass (setMassData sub b)) (Num 0) \<longleftrightarrow>
      static (setMassData sub b) \<noteq> none"
    if fin: "mass (setMassData sub b) \<noteq> PosInf" "mass (setMassData sub b) \<noteq> NegInf"
  proof (cases "static b")
    case none
    then show ?thesis
      using fin by (simp add: setMassData_inverseMass setMassData_static js_div_one_zero_iff)
  next
    case position
    then show ?thesis
      by (simp add: setMassData_inverseMass setMassData_static js_seq_def)
  next
    case total
    then show ?thesis
      by (simp add: setMassData_inverseMass setMassData_static js_seq_def)
  qed
  show ?thesis
    using iff
    by (simp add: setMassData_area setMassData_mass setMassData_density
        initPhysicalData_density setMassData_static flip: setMassData_inverseMass)
qed

text \<open>
  The sample rectangle with mass 1: the mass is finite, the density becomes
  \<open>1 / 1000\<close>, the inverse mass is \<open>1\<close> and is not \<open>0\<close>, as \<open>static\<close> is \<open>none\<close>.
\<close>

theorem setMassData_mass_data_witness:
  "mass (setMassData sample_overrides sample_body) = Num 1 \<and>
   mass (setMassData sample_overrides sample_body) \<noteq> PosInf \<and>
   mass (setMassData sample_overrides sample_body) \<noteq> NegInf \<and>
   density (setMassData sample_overrides sample_body) = Num (1 / 1000) \<and>
   inverseMass (setMassData sample_overrides sample_body) = Num 1 \<and>
   static (setMassData sample_overrides sample_body) = none \<and>
   js_seq (inverseMass (setMassData sample_overrides sample_body)) (Num 0) =
     (static (setMassData sample_overrides sample_body) \<noteq> none)"
  using setMassData_mass_data
    [of sample_overrides sample_body "\<lparr>nature = Some sample_nature\<rparr>" sample_object]
  by (simp add: sample_body_fields sample_overrides_def js_seq_def)

text \<open>
  C1 as stated fails for a body configured with \<open>mass: Infinity\<close> and no \<open>static\<close>:
  after \<open>setMassData\<close> its \<open>inverseMass\<close> is \<open>1 / Infinity = 0\<close> although \<open>static\<close> is
  \<open>none\<close>.
\<close>

theorem setMassData_infinite_mass_counterexample:
  "js_seq (inverseMass (setMassData sample_overrides infinite_mass_body)) (Num 0) \<and>
   static (setMassData sample_overrides infinite_mass_body) = none"
  by (simp add: setMassData_inverseMass setMassData_static setMassData_mass
      infinite_mass_body_fields js_seq_def)


section \<open>Rotation\<close>

lemma setRotation_rot: "rot (setRotation sub d b) = d"
  by (simp add: setRotation_def Let_def)

lemma setRotation_shape_rotate: "shape_rotate (shape (setRotation sub d b)) = d"
  by (simp add: setRotation_def Let_def)

lemma setRotation_angularVel: "angularVel (setRotation sub d b) = angularVel b"
  by (simp add: setRotation_def Let_def)

lemma js_mod_360_range:
  assumes "360 \<le> x"
  shows "\<exists>y. js_mod (Num x) (Num 360) = Num y \<and> 0 \<le> y \<and> y < 360"
proof -
  let ?q = "\<lfloor>x / 360\<rfloor>"
  have "of_int ?q * 360 \<le> x"
    by (rule floor_divide_lower) simp
  then have lo: "0 \<le> x - 360 * of_int ?q"
    by (simp add: algebra_simps)
  have "x < (of_int ?q + 1) * 360"
    by (rule floor_divide_upper) simp
  then have hi: "x - 360 * of_int ?q < 360"
    by (simp add: algebra_simps)
  have "js_mod (Num x) (Num 360) = Num (x - 360 * of_int ?q)"
    using assms by (simp add: js_trunc_def)
  with lo hi show ?thesis by blast
qed

lemma wrapped_below_360:
  "\<exists>y. (if js_ge (Num x) (Num 360) then js_mod (Num x) (Num 360) else Num x) = Num y \<and>
       y < 360 \<and> (0 \<le> x \<longrightarrow> 0 \<le> y)"
proof (cases "360 \<le> x")
  case True
  then show ?thesis
    using js_mod_360_range [of x] by auto
next
  case False
  then show ?thesis by simp
qed

text \<open>
  C2, as the code has it. \<open>integrateRotation\<close> sets the angular velocity to \<open>\<omega> + \<alpha>\<close>.
  It then replaces \<open>rot\<close> by \<open>rot % 360\<close> only when \<open>rot \<ge> 360\<close>, which for a finite
  \<open>rot\<close> gives a value below 360, not negative when \<open>rot\<close> is not, and stores that
  value plus the new angular velocity as the orientation of the body and of its
  proxy. The sum itself is not reduced, so the stored orientation need not lie in
  \<open>[0, 360)\<close>.
\<close>

theorem integrateRotation_wraps_before_adding:
  "angularVel (integrateRotation sub b) = js_add (angularVel b) (angularAcc b) \<and>
   rot (integrateRotation sub b) =
     js_add (if js_ge (rot b) (Num 360) then js_mod (rot b) (Num 360) else rot b)
       (js_add (angularVel b) (angularAcc b)) \<and>
   shape_rotate (shape (integrateRotation sub b)) = rot (integrateRotation sub b) \<and>
   (rot b = Num x \<longrightarrow>
      (\<exists>y. (if js_ge (rot b) (Num 360) then js_mod (rot b) (Num 360) else rot b) = Num y \<and>
           y < 360 \<and> (0 \<le> x \<longrightarrow> 0 \<le> y)))"
proof -
  let ?r = "if js_ge (rot b) (Num 360) then js_mod (rot b) (Num 360) else rot b"
  have av: "angularVel (integrateRotation sub b) = js_add (angularVel b) (angularAcc b)"
    by (simp add: integrateRotation_def Let_def setRotation_angularVel)
  have r: "rot (integrateRotation sub b) = js_add ?r (js_add (angularVel b) (angularAcc b))"
    by (simp add: integrateRotation_def Let_def setRotation_rot)
  have sr: "shape_rotate (shape (integrateRotation sub b)) = rot (integrateRotation sub b)"
    by (simp add: integrateRotation_def Let_def setRotation_rot setRotation_shape_rotate)
  have wrapped: "\<exists>y. ?r = Num y \<and> y < 360 \<and> (0 \<le> x \<longrightarrow> 0 \<le> y)" if x: "rot b = Num x"
    using wrapped_below_360 [of x] by (simp only: x)
  show ?thesis
    using av r sr wrapped by blast
qed

text \<open>
  A body with \<open>rot = 725\<close>, at rest, under the angular acceleration \<open>3\<close>: the new angular
  velocity is \<open>3\<close>, \<open>725 % 360\<close> is \<open>5\<close> and the orientation becomes \<open>5 + 3 = 8\<close>.
\<close>

theorem integrateRotation_wraps_before_adding_witness:
  "rot (sample_body\<lparr>rot := Num 725, angularAcc := Num 3\<rparr>) = Num 725 \<and>
   angularVel (integrateRotation sample_overrides
     (sample_body\<lparr>rot := Num 725, angularAcc := Num 3\<rparr>)) = Num 3 \<and>
   (if js_ge (Num 725) (Num 360) then js_mod (Num 725) (Num 360) else Num 725) = Num 5 \<and>
   rot (integrateRotation sample_overrides
     (sample_body\<lparr>rot := Num 725, angularAcc := Num 3\<rparr>)) = Num 8"
  using integrateRotation_wraps_before_adding
    [of sample_overrides "sample_body\<lparr>rot := Num 725, angularAcc := Num 3\<rparr>" 725]
  by (simp add: sample_body_fields js_trunc_def)

text \<open>
  C2 as stated fails for a body with \<open>rot = 350\<close> and angular velocity \<open>20\<close>:
  \<open>(350 + 20) mod 360\<close> is \<open>10\<close>, and \<open>integrateRotation\<close> leaves \<open>rot = 370\<close>, which is
  not below \<open>360\<close>.
\<close>

theorem integrateRotation_range_counterexample:
  "rot (integrateRotation sample_overrides
     (sample_body\<lparr>rot := Num 350, angularVel := Num 20\<rparr>)) = Num 370 \<and>
   js_mod (js_add (Num 350) (Num 20)) (Num 360) = Num 10 \<and>
   \<not> js_lt (rot (integrateRotation sample_overrides
     (sample_body\<lparr>rot := Num 350, angularVel := Num 20\<rparr>))) (Num 360)"
  by (simp add: integrateRotation_def Let_def setRotation_rot sample_body_fields js_trunc_def)

text \<open>
  C3, as the code has it. \<open>setRotation(d)\<close> stores \<open>d\<close> itself, not reduced modulo 360,
  as the orientation of the body and as the \<open>rotate\<close> attribute of its proxy. After two
  calls both hold the argument of the second call. Calling it twice with the same \<open>d\<close>
  gives the state of one call but for the bounding box, which \<open>updateBoundRect\<close>
  updates once more, with the difference \<open>d - d\<close>.
\<close>

theorem setRotation_stores_degrees:
  "rot (setRotation sub d b) = d \<and>
   shape_rotate (shape (setRotation sub d b)) = d \<and>
   rot (setRotation sub d' (setRotation sub d b)) = d' \<and>
   shape_rotate (shape (setRotation sub d' (setRotation sub d b))) = d' \<and>
   setRotation sub d (setRotation sub d b) =
     (setRotation sub d b)\<lparr>boundRect :=
        updateBoundRect sub (UpdateRot (js_sub d d)) (setRotation sub d b)\<rparr>"
  by (cases b) (simp add: setRotation_def Let_def)

text \<open>
  \<open>setRotation(400)\<close> on the sample body, whose bounding box ignores rotations: \<open>rot\<close>
  and \<open>rotate\<close> are \<open>400\<close>, and a second \<open>setRotation(400)\<close> changes nothing.
\<close>

theorem setRotation_stores_degrees_witness:
  "rot (setRotation sample_overrides (Num 400) sample_body) = Num 400 \<and>
   shape_rotate (shape (setRotation sample_overrides (Num 400) sample_body)) = Num 400 \<and>
   setRotation sample_overrides (Num 400) (setRotation sample_overrides (Num 400) sample_body) =
     setRotation sample_overrides (Num 400) sample_body"
  using setRotation_stores_degrees [of sample_overrides "Num 400" sample_body "Num 400"]
  by (simp add: sample_overrides_def setRotation_def Let_def)

text \<open>
  C3 as stated fails: after \<open>setRotation(400)\<close> the orientation is \<open>400\<close>, not below
  \<open>360\<close>; and although \<open>370\<close> and \<open>10\<close> are equal modulo 360, \<open>setRotation(10)\<close> followed
  by \<open>setRotation(370)\<close> does not leave the state of \<open>setRotation(10)\<close>.
\<close>

theorem setRotation_normalize_counterexample:
  "rot (setRotation sample_overrides (Num 400) sample_body) = Num 400 \<and>
   \<not> js_lt (rot (setRotation sample_overrides (Num 400) sample_body)) (Num 360) \<and>
   js_mod (Num 370) (Num 360) = js_mod (Num 10) (Num 360) \<and>
   setRotation sample_overrides (Num 370) (setRotation sample_overrides (Num 10) sample_body)
     \<noteq> setRotation sample_overrides (Num 10) sample_body"
proof -
  have "rot (setRotation sample_overrides (Num 370)
          (setRotation sample_overrides (Num 10) sample_body))
        \<noteq> rot (setRotation sample_overrides (Num 10) sample_body)"
    by (simp add: setRotation_rot)
  then have "setRotation sample_overrides (Num 370)
      (setRotation sample_overrides (Num 10) sample_body)
     \<noteq> setRotation sample_overrides (Num 10) sample_body"
    by metis
  then show ?thesis
    by (simp add: setRotation_rot js_trunc_def)
qed


section \<open>The size of the viewport\<close>

lemma LayerManager_new_size:
  "LayerManager_getWidth (LayerManager_new c) = offsetHeight c"
  "LayerManager_getHeight (LayerManager_new c) = offsetWidth c"
  by (simp_all add: LayerManager_getWidth_def LayerManager_getHeight_def LayerManager_new_def)

lemma WorldCreator_new_size:
  "WorldCreator_getWidth (WorldCreator_new bm c) = offsetHeight c"
  "WorldCreator_getHeight (WorldCreator_new bm c) = offsetWidth c"
  by (simp_all add: WorldCreator_getWidth_def WorldCreator_getHeight_def WorldCreator_new_def
      RendererCreator_getWidth_def RendererCreator_getHeight_def RendererCreator_new_def
      Let_def LayerManager_new_size)

text \<open>
  C4. Over a container of width 800 and height 600, \<open>getWidth()\<close> returns 600 and
  \<open>getHeight()\<close> returns 800: the constructor stores \<open>[offsetWidth, offsetHeight]\<close>, and
  \<open>getHeight\<close> reads index 0 while \<open>getWidth\<close> reads index 1.
\<close>

theorem getWidth_getHeight_swapped:
  "LayerManager_getWidth (LayerManager_new \<lparr>offsetWidth = 800, offsetHeight = 600\<rparr>) = 600 \<and>
   LayerManager_getHeight (LayerManager_new \<lparr>offsetWidth = 800, offsetHeight = 600\<rparr>) = 800 \<and>
   WorldCreator_getWidth (WorldCreator_new bm \<lparr>offsetWidth = 800, offsetHeight = 600\<rparr>) = 600 \<and>
   WorldCreator_getHeight (WorldCreator_new bm \<lparr>offsetWidth = 800, offsetHeight = 600\<rparr>) = 800"
  by (simp add: LayerManager_new_size WorldCreator_new_size)


section \<open>Position\<close>

lemma setPos_pos: "pos (setPos sub p b) = p"
  by (simp add: setPos_def Let_def)

lemma setPos_linearVel: "linearVel (setPos sub p b) = linearVel b"
  by (simp add: setPos_def Let_def)

text \<open>
  C5. \<open>integratePosition\<close> sets the linear velocity to \<open>v + a\<close> and the position to
  \<open>pos\<close> plus that new velocity.
\<close>

theorem integratePosition_semi_implicit_euler:
  "linearVel (integratePosition sub b) = Vector_add (linearVel b) (linearAcc b) \<and>
   pos (integratePosition sub b) = Vector_add (pos b) (linearVel (integratePosition sub b)) \<and>
   pos (integratePosition sub b) = Vector_add (pos b) (Vector_add (linearVel b) (linearAcc b))"
  by (simp add: integratePosition_def Let_def setPos_pos setPos_linearVel Vector_add_commute)

text \<open>
  The sample body at \<open>(400, 580)\<close> with velocity \<open>(3, 0)\<close> under the acceleration
  \<open>(0, 5)\<close>: the velocity becomes \<open>(3, 5)\<close> and the position \<open>(403, 585)\<close>; with the old
  velocity it would be \<open>(403, 580)\<close>.
\<close>

theorem integratePosition_semi_implicit_euler_witness:
  "linearVel (integratePosition sample_overrides
      (sample_body\<lparr>linearVel := (Num 3, Num 0), linearAcc := (Num 0, Num 5)\<rparr>)) = (Num 3, Num 5) \<and>
   pos (integratePosition sample_overrides
      (sample_body\<lparr>linearVel := (Num 3, Num 0), linearAcc := (Num 0, Num 5)\<rparr>)) = (Num 403, Num 585)"
  using integratePosition_semi_implicit_euler
    [of sample_overrides "sample_body\<lparr>linearVel := (Num 3, Num 0), linearAcc := (Num 0, Num 5)\<rparr>"]
  by (simp add: sample_body_fields Vector_add_def)

text \<open>
  C6. After \<open>setPos(p)\<close> the position of the body is \<open>p\<close>, and the \<open>x\<close> and \<open>y\<close>
  attributes of its proxy are their old values plus the components of \<open>p - pos\<close>, the
  old position being \<open>pos\<close>.
\<close>

theorem setPos_roundtrip:
  "pos (setPos sub p b) = p \<and>
   shape_x (shape (setPos sub p b)) = js_add (shape_x (shape b)) (js_sub (fst p) (fst (pos b))) \<and>
   shape_y (shape (setPos sub p b)) = js_add (shape_y (shape b)) (js_sub (snd p) (snd (pos b)))"
  by (simp add: setPos_def Let_def Vector_sub_def)

text \<open>
  Moving the sample body from \<open>(400, 580)\<close> to \<open>(410, 600)\<close> moves its proxy from
  \<open>(375, 570)\<close> to \<open>(385, 590)\<close>.
\<close>

theorem setPos_roundtrip_witness:
  "pos (setPos sample_overrides (Num 410, Num 600) sample_body) = (Num 410, Num 600) \<and>
   shape_x (shape (setPos sample_overrides (Num 410, Num 600) sample_body)) = Num 385 \<and>
   shape_y (shape (setPos sample_overrides (Num 410, Num 600) sample_body)) = Num 590"
  using setPos_roundtrip [of sample_overrides "(Num 410, Num 600)" sample_body]
  by (simp add: sample_body_fields sample_shape_def js_sub_def)


section \<open>The sleep heuristic\<close>

text \<open>
  C7. From a sample ring of at most 20 entries, \<open>isTimeToSleep(lv, av)\<close> appends the
  motion sample \<open>|lv|\<^sup>2 + av\<^sup>2\<close>, dropping the oldest entry first when the ring
  already holds 20, so that the ring keeps at most 20 entries. When the ring then
  holds exactly 20 entries, the state becomes \<open>sleep\<close> if the standard deviation of
  the 20 samples is below 500 and \<open>simulate\<close> otherwise; with fewer entries the state
  is unchanged.
\<close>

theorem isTimeToSleep_ring:
  assumes "length (frameMotionListIn10 b) \<le> 20"
  shows
    "frameMotionListIn10 (isTimeToSleep len sd lv av b) =
       (if length (frameMotionListIn10 b) = 20 then tl (frameMotionListIn10 b)
        else frameMotionListIn10 b) @ [js_add (js_mul (len lv) (len lv)) (js_mul av av)] \<and>
     length (frameMotionListIn10 (isTimeToSleep len sd lv av b)) =
       min (length (frameMotionListIn10 b) + 1) 20 \<and>
     state (isTimeToSleep len sd lv av b) =
       (if length (frameMotionListIn10 (isTimeToSleep len sd lv av b)) = 20
        then (if js_lt (sd (frameMotionListIn10 (isTimeToSleep len sd lv av b))) (Num 500)
              then sleep else simulate)
        else state b)"
  using assms by (simp add: isTimeToSleep_def Let_def)

text \<open>
  A body at rest with 19 samples \<open>0\<close> in its ring: the twentieth sample \<open>0\<close> fills the
  ring, the deviation is \<open>0\<close> and the body goes to sleep.
\<close>

theorem isTimeToSleep_ring_witness:
  "length (frameMotionListIn10 (sample_body\<lparr>frameMotionListIn10 := resting_samples\<rparr>)) \<le> 20 \<and>
   length (frameMotionListIn10 (isTimeToSleep sample_len sample_deviation (Num 0, Num 0) (Num 0)
      (sample_body\<lparr>frameMotionListIn10 := resting_samples\<rparr>))) = 20 \<and>
   state (isTimeToSleep sample_len sample_deviation (Num 0, Num 0) (Num 0)
      (sample_body\<lparr>frameMotionListIn10 := resting_samples\<rparr>)) = sleep"
proof -
  have len: "length (frameMotionListIn10 (sample_body\<lparr>frameMotionListIn10 := resting_samples\<rparr>)) \<le> 20"
    by (simp add: resting_samples_def)
  have sd: "sample_deviation (resting_samples @ [Num 0]) = Num 0"
    by (simp add: sample_deviation_def js_sum_def resting_samples_def Let_def js_sub_def)
  have motion: "sample_len (Num 0, Num 0) = Num 0"
    by (simp add: sample_len_def)
  have l19: "length resting_samples = 19"
    by (simp add: resting_samples_def)
  note ring = isTimeToSleep_ring [OF len, where len = sample_len and sd = sample_deviation
        and lv = "(Num 0, Num 0)" and av = "Num 0"]
  have samples: "frameMotionListIn10 (isTimeToSleep sample_len sample_deviation (Num 0, Num 0) (Num 0)
      (sample_body\<lparr>frameMotionListIn10 := resting_samples\<rparr>)) = resting_samples @ [Num 0]"
    using ring by (simp add: motion l19)
  have full: "length (frameMotionListIn10 (isTimeToSleep sample_len sample_deviation (Num 0, Num 0)
      (Num 0) (sample_body\<lparr>frameMotionListIn10 := resting_samples\<rparr>))) = 20"
    by (simp add: samples l19)
  have "state (isTimeToSleep sample_len sample_deviation (Num 0, Num 0) (Num 0)
      (sample_body\<lparr>frameMotionListIn10 := resting_samples\<rparr>)) = sleep"
    using ring unfolding full unfolding samples sd by simp
  with len full show ?thesis by blast
qed


section \<open>Clearing the world\<close>














section \<open>Counting the shapes\<close>

lemma getTotalCount_loop_sum:
  "getTotalCount_loop gc es t = t + (\<Sum>e\<leftarrow>es. gc (snd e))"
  by (induction es arbitrary: t) simp_all

lemma getTotalCount_fst:
  "layerMap (fst (getTotalCount gc lm)) = layerMap lm"
  "totalShapeCount (fst (getTotalCount gc lm)) =
     totalShapeCount lm + (\<Sum>e\<leftarrow>layerMap lm. gc (snd e))"
  by (simp_all add: getTotalCount_def Let_def getTotalCount_loop_sum)

lemma getTotalCount_snd:
  "snd (getTotalCount gc lm) = totalShapeCount lm + (\<Sum>e\<leftarrow>layerMap lm. gc (snd e))"
  by (simp add: getTotalCount_def Let_def getTotalCount_loop_sum)

lemma getTotalCount_nth_total:
  "getTotalCount_nth gc n lm = totalShapeCount lm + int n * (\<Sum>e\<leftarrow>layerMap lm. gc (snd e))"
proof (induction gc n lm rule: getTotalCount_nth.induct)
  case (1 gc lm)
  show ?case by simp
next
  case (2 gc lm)
  show ?case by (simp add: getTotalCount_snd)
next
  case (3 gc v lm)
  then show ?case
    by (simp add: getTotalCount_fst algebra_simps)
qed

text \<open>
  C9. On a manager whose running total is still \<open>0\<close>, as the constructor leaves it, and
  whose layers do not change, the \<open>n\<close>-th call of \<open>getTotalCount\<close> returns \<open>n\<close> times the
  sum of the shape counts of the layers: each call adds that sum to the stored total
  and leaves the layers as they are.
\<close>

theorem getTotalCount_accumulates:
  assumes "totalShapeCount lm = 0" and "0 < n"
  shows "getTotalCount_nth gc n lm = int n * (\<Sum>e\<leftarrow>layerMap lm. gc (snd e)) \<and>
         totalShapeCount (fst (getTotalCount gc lm)) = (\<Sum>e\<leftarrow>layerMap lm. gc (snd e)) \<and>
         layerMap (fst (getTotalCount gc lm)) = layerMap lm"
  using assms by (simp add: getTotalCount_nth_total getTotalCount_fst)

text \<open>
  The sample manager holds three shapes: the first three calls return 3, 6 and 9.
\<close>

theorem getTotalCount_accumulates_witness:
  "totalShapeCount sample_layers = 0 \<and> (0::nat) < 3 \<and>
   getTotalCount_nth sample_getCount 1 sample_layers = 3 \<and>
   getTotalCount_nth sample_getCount 2 sample_layers = 6 \<and>
   getTotalCount_nth sample_getCount 3 sample_layers = 9"
proof -
  have t: "totalShapeCount sample_layers = 0"
    by (simp add: sample_layers_def LayerManager_new_def)
  have l: "layerMap sample_layers = [(''0'', [1, 2]), (''3'', [4])]"
    by (simp add: sample_layers_def)
  show ?thesis
    using t getTotalCount_accumulates [OF t, of 1 sample_getCount]
      getTotalCount_accumulates [OF t, of 2 sample_getCount]
      getTotalCount_accumulates [OF t, of 3 sample_getCount]
    by (simp add: l sample_getCount_def)
qed


section \<open>Falsy configuration values\<close>

text \<open>
  C10. For a configuration whose \<open>nature\<close> gives \<open>restitution: 0\<close>, \<open>initPhysicalData\<close>
  leaves the restitution of the body at the default 0.9. The mass and the angular
  velocity are taken through the same \<open>||\<close>, with the default \<open>0\<close>, so that a
  configured \<open>0\<close> gives the default there too.
\<close>

theorem initPhysicalData_falsy_restitution:
  assumes "nature opt = Some n" and "nature_restitution n = Some (Num 0)"
  shows "restitution (initPhysicalData opt this) = Num (9 / 10) \<and>
         mass (initPhysicalData opt this) = num_or (nature_mass n) (Num 0) \<and>
         angularVel (initPhysicalData opt this) = num_or (nature_angularVelocity n) (Num 0) \<and>
         num_or (Some (Num 0)) (Num 0) = Num 0"
  using assms by (simp add: initPhysicalData_def Let_def num_or_zero)

text \<open>The sample configuration with \<open>restitution: 0\<close> added.\<close>

theorem initPhysicalData_falsy_restitution_witness:
  "nature \<lparr>nature = Some (sample_nature\<lparr>nature_restitution := Some (Num 0)\<rparr>)\<rparr> =
     Some (sample_nature\<lparr>nature_restitution := Some (Num 0)\<rparr>) \<and>
   nature_restitution (sample_nature\<lparr>nature_restitution := Some (Num 0)\<rparr>) = Some (Num 0) \<and>
   restitution (initPhysicalData
      \<lparr>nature = Some (sample_nature\<lparr>nature_restitution := Some (Num 0)\<rparr>)\<rparr> sample_object) =
     Num (9 / 10)"
proof -
  have a: "nature \<lparr>nature = Some (sample_nature\<lparr>nature_restitution := Some (Num 0)\<rparr>)\<rparr> =
     Some (sample_nature\<lparr>nature_restitution := Some (Num 0)\<rparr>)"
    by simp
  have b: "nature_restitution (sample_nature\<lparr>nature_restitution := Some (Num 0)\<rparr>) = Some (Num 0)"
    by simp
  show ?thesis
    using a b initPhysicalData_falsy_restitution [OF a b, of sample_object] by simp
qed

end
